theory Spec2Isabelle
  imports Main "HOL-Library.AList"
begin

section \<open>Semantic graph RAG: extraction, ingestion and answer synthesis\<close>

text \<open>
  A shallow embedding of \<^verbatim>\<open>semantic_graph_rag.py\<close>: the class
  \<^verbatim>\<open>SemanticEntityExtractor\<close> (one completion request per chunk, the reply parsed as
  JSON) and the class \<^verbatim>\<open>SemanticGraphRAG\<close> (the ingestion loop that writes Cypher
  statements to the graph store, and the chain-of-thought query).

  The three collaborators outside the repository are parameters of the model:
  \<^item> the completion service, a function from the request text to either an exception or the
    \<^verbatim>\<open>content\<close> of the first choice (which the client library types as optional);
  \<^item> \<^verbatim>\<open>json.loads\<close>, a function from a text to the parsed value, \<open>None\<close> where it raises;
  \<^item> the graph store, in two parts: its refusals of the statements whose semantics the model
    gives (a constraint, a parameter value it cannot store, a lost connection), a predicate
    on the statement and the graph it would run on; and its answer to every other statement
    the source can build, a function to an exception or none and the graph left behind.
  Text is \<open>string\<close>, read as ASCII: whitespace and upper-casing are those of the ASCII range.
\<close>

subsection \<open>Values returned by the JSON parser\<close>

text \<open>
  A Python \<^verbatim>\<open>float\<close> parsed from a literal is kept as the exact decimal the literal
  denotes (digits and a power of ten), or as one of the constants \<^verbatim>\<open>NaN\<close>,
  \<^verbatim>\<open>Infinity\<close>, \<^verbatim>\<open>-Infinity\<close> that \<^verbatim>\<open>json.loads\<close> accepts. A \<^verbatim>\<open>dict\<close> is an
  association list in insertion order, looked up with \<open>map_of\<close>.
\<close>

datatype pyfloat = Finite int int | NaN | Inf bool

datatype json =
    JNull
  | JBool bool
  | JInt int
  | JFloat pyfloat
  | JStr string
  | JArr "json list"
  | JObj "(string \<times> json) list"

datatype error =
    APIError
  | JSONDecodeError
  | AttributeError
  | TypeError
  | KeyError string
  | IndexError
  | StoreError

subsection \<open>The Python operations the source applies to these values\<close>

text \<open>\<^verbatim>\<open>d.get(key, default)\<close> on a dict.\<close>

definition dict_get :: "(string \<times> json) list \<Rightarrow> string \<Rightarrow> json \<Rightarrow> json" where
  "dict_get d key dflt = (case map_of d key of Some v \<Rightarrow> v | None \<Rightarrow> dflt)"

text \<open>
  \<^verbatim>\<open>x[key]\<close> with a string key: a dict raises \<^verbatim>\<open>KeyError\<close> for a missing key, every
  other parsed value raises \<^verbatim>\<open>TypeError\<close> (a list or a string wants an integer index, the
  rest is not subscriptable).
\<close>

fun py_getitem :: "json \<Rightarrow> string \<Rightarrow> error + json" where
  "py_getitem (JObj d) key = (case map_of d key of Some v \<Rightarrow> Inr v | None \<Rightarrow> Inl (KeyError key))"
| "py_getitem _ key = Inl TypeError"

text \<open>
  A float literal rounds to zero exactly when its value is at most \<open>2 ^ 1075\<close>-th of one,
  half of the smallest subnormal double.
\<close>

fun float_truthy :: "pyfloat \<Rightarrow> bool" where
  "float_truthy (Finite m e) =
     (m \<noteq> 0 \<and> (0 \<le> e \<or> 10 ^ nat (- e) < \<bar>m\<bar> * 2 ^ 1075))"
| "float_truthy NaN = True"
| "float_truthy (Inf _) = True"

text \<open>Truth value of a parsed value, as \<^verbatim>\<open>if not x\<close> tests it.\<close>

fun py_truthy :: "json \<Rightarrow> bool" where
  "py_truthy JNull = False"
| "py_truthy (JBool b) = b"
| "py_truthy (JInt n) = (n \<noteq> 0)"
| "py_truthy (JFloat f) = float_truthy f"
| "py_truthy (JStr s) = (s \<noteq> [])"
| "py_truthy (JArr xs) = (xs \<noteq> [])"
| "py_truthy (JObj d) = (d \<noteq> [])"

text \<open>
  The elements a \<^verbatim>\<open>for\<close> loop visits: those of a list, the characters of a string, the
  keys of a dict; anything else raises \<^verbatim>\<open>TypeError\<close> when the loop starts.
\<close>

fun py_iter :: "json \<Rightarrow> error + json list" where
  "py_iter (JArr xs) = Inr xs"
| "py_iter (JStr s) = Inr (map (\<lambda>c. JStr [c]) s)"
| "py_iter (JObj d) = Inr (map (\<lambda>kv. JStr (fst kv)) d)"
| "py_iter _ = Inl TypeError"

definition py_isspace :: "char \<Rightarrow> bool" where
  "py_isspace c = (let n = (of_char c :: nat) in (9 \<le> n \<and> n \<le> 13) \<or> (28 \<le> n \<and> n \<le> 32))"

definition strip :: "string \<Rightarrow> string" where
  "strip s = rev (dropWhile py_isspace (rev (dropWhile py_isspace s)))"

definition startswith :: "string \<Rightarrow> string \<Rightarrow> bool" where
  "startswith s p = (take (length p) s = p)"

text \<open>\<^verbatim>\<open>s.find(sub)\<close>: the index of the first occurrence, \<open>None\<close> for Python's \<open>-1\<close>.\<close>

fun find_str :: "string \<Rightarrow> string \<Rightarrow> nat option" where
  "find_str [] sub = (if sub = [] then Some 0 else None)"
| "find_str (c # cs) sub =
     (if startswith (c # cs) sub then Some 0 else map_option Suc (find_str cs sub))"

lemma find_str_bound: "find_str s sub = Some i \<Longrightarrow> i + length sub \<le> length s"
proof (induction s arbitrary: i)
  case Nil
  then show ?case by (simp split: if_splits)
next
  case (Cons c cs)
  show ?case
  proof (cases "startswith (c # cs) sub")
    case True
    then have "length sub = min (length (c # cs)) (length sub)"
      unfolding startswith_def by (metis length_take)
    then have "length sub \<le> length (c # cs)"
      by linarith
    with True Cons.prems show ?thesis by simp
  next
    case False
    with Cons.prems obtain j where "find_str cs sub = Some j" "i = Suc j" by auto
    with Cons.IH show ?thesis by fastforce
  qed
qed

text \<open>
  \<^verbatim>\<open>s.split(sep)\<close>: cut at the occurrences of \<open>sep\<close>, found from the left and not
  overlapping. Python raises \<^verbatim>\<open>ValueError\<close> for an empty separator; the source passes
  the two literals below only, and the model returns the text whole there.
\<close>

function split_str :: "string \<Rightarrow> string \<Rightarrow> string list" where
  "split_str s sep =
     (if sep = [] then [s]
      else case find_str s sep of
             None \<Rightarrow> [s]
           | Some i \<Rightarrow> take i s # split_str (drop (i + length sep) s) sep)"
  by pat_completeness auto
termination
proof (relation "measure (\<lambda>(s, sep). length s)")
  show "wf (measure (\<lambda>(s, sep). length s))" by simp
next
  fix s sep :: string and i :: nat
  assume "sep \<noteq> []" and "find_str s sep = Some i"
  then have "0 < length sep" "i + length sep \<le> length s"
    using find_str_bound by auto
  then have "length s - (i + length sep) < length s"
    by linarith
  then show "((drop (i + length sep) s, sep), (s, sep)) \<in> measure (\<lambda>(s, sep). length s)"
    by simp
qed

declare split_str.simps [simp del]

text \<open>\<^verbatim>\<open>s.upper()\<close>.\<close>

definition upper_char :: "char \<Rightarrow> char" where
  "upper_char c =
     (let n = (of_char c :: nat) in if 97 \<le> n \<and> n \<le> 122 then char_of (n - 32) else c)"

definition upper :: "string \<Rightarrow> string" where
  "upper s = map upper_char s"

subsection \<open>A JSON parser\<close>

text \<open>
  \<^verbatim>\<open>json.loads\<close> is a parameter of the extractor below. Where a concrete parser is
  wanted, this one follows the decoder of the Python library on ASCII text: whitespace is
  blank, tab, line feed and carriage return; a string may not hold a raw control character;
  a number without fraction and exponent is an \<^verbatim>\<open>int\<close>, any other a \<^verbatim>\<open>float\<close>; a
  repeated key keeps its first place and its last value; text after the value is an error.
  An escape \<^verbatim>\<open>\uXXXX\<close> beyond ASCII is outside the text model and not accepted, and the
  interpreter's limit on nesting depth is not modelled. The recursion on nested values is
  bounded by the length of the text, which no nesting exceeds.
\<close>

definition json_ws :: "char \<Rightarrow> bool" where
  "json_ws c = (c \<in> set [CHR '' '', CHR 0x09, CHR 0x0A, CHR 0x0D])"

definition skip_ws :: "string \<Rightarrow> string" where
  "skip_ws s = dropWhile json_ws s"

definition is_digit :: "char \<Rightarrow> bool" where
  "is_digit c = (let n = (of_char c :: nat) in 48 \<le> n \<and> n \<le> 57)"

definition digits_value :: "string \<Rightarrow> nat" where
  "digits_value ds = foldl (\<lambda>a c. 10 * a + (of_char c - 48)) 0 ds"

definition hex_value :: "char \<Rightarrow> nat option" where
  "hex_value c =
     (let n = (of_char c :: nat) in
      if 48 \<le> n \<and> n \<le> 57 then Some (n - 48)
      else if 65 \<le> n \<and> n \<le> 70 then Some (n - 55)
      else if 97 \<le> n \<and> n \<le> 102 then Some (n - 87)
      else None)"

definition unescape :: "char \<Rightarrow> char option" where
  "unescape c =
     (if c = CHR 0x22 \<or> c = CHR 0x5C \<or> c = CHR ''/'' then Some c
      else if c = CHR ''b'' then Some (CHR 0x08)
      else if c = CHR ''f'' then Some (CHR 0x0C)
      else if c = CHR ''n'' then Some (CHR 0x0A)
      else if c = CHR ''r'' then Some (CHR 0x0D)
      else if c = CHR ''t'' then Some (CHR 0x09)
      else None)"

fun scan_string :: "string \<Rightarrow> string \<Rightarrow> (string \<times> string) option" where
  "scan_string [] acc = None"
| "scan_string (c # cs) acc =
     (if c = CHR 0x22 then Some (rev acc, cs)
      else if c = CHR 0x5C then
        (case cs of
           [] \<Rightarrow> None
         | e # rest \<Rightarrow>
             if e = CHR ''u'' then
               (case rest of
                  h1 # h2 # h3 # h4 # rest' \<Rightarrow>
                    (case (hex_value h1, hex_value h2, hex_value h3, hex_value h4) of
                       (Some a, Some b, Some c', Some d) \<Rightarrow>
                         (let n = ((a * 16 + b) * 16 + c') * 16 + d
                          in if n < 128 then scan_string rest' (char_of n # acc) else None)
                     | _ \<Rightarrow> None)
                | _ \<Rightarrow> None)
             else (case unescape e of
                     None \<Rightarrow> None
                   | Some ch \<Rightarrow> scan_string rest (ch # acc)))
      else if (of_char c :: nat) < 32 then None
      else scan_string cs (c # acc))"

definition scan_number :: "string \<Rightarrow> (json \<times> string) option" where
  "scan_number s =
     (let negative = (s \<noteq> [] \<and> hd s = CHR ''-'');
          s1 = (if negative then tl s else s);
          all_digits = takeWhile is_digit s1
      in if all_digits = [] then None
         else
           let integer = (if hd all_digits = CHR ''0'' then ''0'' else all_digits);
               s2 = drop (length integer) s1;
               frac = (case s2 of
                         c # r \<Rightarrow> if c = CHR ''.'' then takeWhile is_digit r else []
                       | [] \<Rightarrow> []);
               s3 = (if frac = [] then s2 else drop (Suc (length frac)) s2);
               exp_sign = (case s3 of
                             c # r \<Rightarrow> if c = CHR ''e'' \<or> c = CHR ''E'' then
                                        (case r of
                                           d # r' \<Rightarrow> if d = CHR ''+'' \<or> d = CHR ''-'' then [d] else []
                                         | [] \<Rightarrow> [])
                                      else []
                           | [] \<Rightarrow> []);
               exp_digits = (case s3 of
                               c # r \<Rightarrow> if c = CHR ''e'' \<or> c = CHR ''E'' then
                                          takeWhile is_digit (drop (length exp_sign) r)
                                        else []
                             | [] \<Rightarrow> []);
               s4 = (if exp_digits = [] then s3
                     else drop (Suc (length exp_sign + length exp_digits)) s3);
               sign = (if negative then - 1 else (1 :: int))
           in if frac = [] \<and> exp_digits = []
              then Some (JInt (sign * int (digits_value integer)), s4)
              else Some (JFloat (Finite (sign * int (digits_value (integer @ frac)))
                                   ((if exp_sign = ''-'' then - 1 else 1) * int (digits_value exp_digits)
                                    - int (length frac))), s4))"

fun parse_value :: "nat \<Rightarrow> string \<Rightarrow> (json \<times> string) option"
  and parse_array :: "nat \<Rightarrow> string \<Rightarrow> json list \<Rightarrow> (json \<times> string) option"
  and parse_object :: "nat \<Rightarrow> string \<Rightarrow> (string \<times> json) list \<Rightarrow> (json \<times> string) option" where
  "parse_value 0 s = None"
| "parse_value (Suc n) s =
     (case s of
        [] \<Rightarrow> None
      | c # cs \<Rightarrow>
          if c = CHR 0x22 then
            (case scan_string cs [] of None \<Rightarrow> None | Some (t, r) \<Rightarrow> Some (JStr t, r))
          else if c = CHR ''{'' then
            (case skip_ws cs of
               [] \<Rightarrow> None
             | c' # r \<Rightarrow> if c' = CHR ''}'' then Some (JObj [], r) else parse_object n (c' # r) [])
          else if c = CHR ''['' then
            (case skip_ws cs of
               [] \<Rightarrow> None
             | c' # r \<Rightarrow> if c' = CHR '']'' then Some (JArr [], r) else parse_array n (c' # r) [])
          else if startswith s ''null'' then Some (JNull, drop 4 s)
          else if startswith s ''true'' then Some (JBool True, drop 4 s)
          else if startswith s ''false'' then Some (JBool False, drop 5 s)
          else (case scan_number s of
                  Some r \<Rightarrow> Some r
                | None \<Rightarrow>
                    if startswith s ''NaN'' then Some (JFloat NaN, drop 3 s)
                    else if startswith s ''Infinity'' then Some (JFloat (Inf False), drop 8 s)
                    else if startswith s ''-Infinity'' then Some (JFloat (Inf True), drop 9 s)
                    else None))"
| "parse_array 0 s acc = None"
| "parse_array (Suc n) s acc =
     (case parse_value n s of
        None \<Rightarrow> None
      | Some (v, r) \<Rightarrow>
          (case skip_ws r of
             [] \<Rightarrow> None
           | c # r' \<Rightarrow>
               if c = CHR '']'' then Some (JArr (rev (v # acc)), r')
               else if c = CHR '','' then parse_array n (skip_ws r') (v # acc)
               else None))"
| "parse_object 0 s acc = None"
| "parse_object (Suc n) s acc =
     (case s of
        [] \<Rightarrow> None
      | q # cs \<Rightarrow>
          if q \<noteq> CHR 0x22 then None
          else (case scan_string cs [] of
                  None \<Rightarrow> None
                | Some (key, r) \<Rightarrow>
                    (case skip_ws r of
                       [] \<Rightarrow> None
                     | c # r1 \<Rightarrow>
                         if c \<noteq> CHR '':'' then None
                         else (case parse_value n (skip_ws r1) of
                                 None \<Rightarrow> None
                               | Some (v, r2) \<Rightarrow>
                                   (case skip_ws r2 of
                                      [] \<Rightarrow> None
                                    | c' # r3 \<Rightarrow>
                                        if c' = CHR ''}'' then Some (JObj (AList.update key v acc), r3)
                                        else if c' = CHR '','' then
                                          parse_object n (skip_ws r3) (AList.update key v acc)
                                        else None)))))"

definition json_loads :: "string \<Rightarrow> json option" where
  "json_loads s =
     (case parse_value (Suc (length s)) (skip_ws s) of
        None \<Rightarrow> None
      | Some (v, r) \<Rightarrow> if skip_ws r = [] then Some v else None)"

subsection \<open>The extractor\<close>

record EntityExtractionResult =
  entities :: json
  relationships :: json
  chunk_summary :: json

type_synonym completion = "string \<Rightarrow> error + string option"

type_synonym loads = "string \<Rightarrow> json option"

definition extraction_prompt :: "string \<Rightarrow> string" where
  \<open>extraction_prompt text_chunk =
     ''You are an expert in SAP HANA on VMware systems. Extract structured information from this technical documentation chunk.\<newline>'' @
     ''\<newline>'' @
     ''SCHEMA DEFINITION:\<newline>'' @
     ''Entity Types:\<newline>'' @
     ''- Concept: High-level technical ideas (e.g., "NUMA Optimization", "Memory Management")\<newline>'' @
     ''- Parameter: Specific config settings (e.g., "sched.cpu.affinity", "numa.nodeAffinity") \<newline>'' @
     ''- Component: Software/hardware pieces (e.g., "vSphere", "SAP HANA", "Guest OS")\<newline>'' @
     ''- Recommendation: Best practice rules or guidelines\<newline>'' @
     ''\<newline>'' @
     ''Relationship Types:\<newline>'' @
     ''- INVOLVES_COMPONENT: Concept involves component\<newline>'' @
     ''- SETS_PARAMETER: Recommendation sets parameter\<newline>'' @
     ''- AFFECTS: Parameter affects component\<newline>'' @
     ''- FOR_CONCEPT: Recommendation for concept\<newline>'' @
     ''\<newline>'' @
     ''TEXT CHUNK:\<newline>'' @
     text_chunk @
     ''\<newline>\<newline>'' @
     ''Extract entities and relationships. Output MUST be valid JSON:\<newline>'' @
     ''\<newline>'' @
     ''{\<newline>'' @
     ''  "entities": [\<newline>'' @
     ''    {"type": "Concept", "name": "NUMA Optimization", "description": "brief description"},\<newline>'' @
     ''    {"type": "Parameter", "name": "numa.nodeAffinity", "description": "controls NUMA node assignment"}\<newline>'' @
     ''  ],\<newline>'' @
     ''  "relationships": [\<newline>'' @
     ''    {"from": "NUMA Optimization", "to": "vSphere", "type": "INVOLVES_COMPONENT"},\<newline>'' @
     ''    {"from": "Configure NUMA settings", "to": "numa.nodeAffinity", "type": "SETS_PARAMETER"}\<newline>'' @
     ''  ],\<newline>'' @
     ''  "chunk_summary": "Brief summary of what this chunk discusses"\<newline>'' @
     ''}\<newline>'' @
     ''\<newline>'' @
     ''Focus on SAP HANA performance, VMware configuration, and system optimization concepts.''\<close>

text \<open>
  The fence handling of the source:
  \<^verbatim>\<open>if json_str.startswith('```json'): json_str = json_str.split('```json')[1].split('```')[0]\<close>.
  Both subscripts raise \<^verbatim>\<open>IndexError\<close> out of range.
\<close>

definition unfence :: "string \<Rightarrow> error + string" where
  "unfence json_str =
     (if startswith json_str ''```json''
      then (case split_str json_str ''```json'' of
              _ # part # _ \<Rightarrow>
                (case split_str part ''```'' of
                   inner # _ \<Rightarrow> Inr inner
                 | [] \<Rightarrow> Inl IndexError)
            | _ \<Rightarrow> Inl IndexError)
      else Inr json_str)"

text \<open>
  The body of the \<^verbatim>\<open>try\<close> block. The reply's content may be absent (\<^verbatim>\<open>None.strip()\<close> is
  an \<^verbatim>\<open>AttributeError\<close>); \<^verbatim>\<open>.get\<close> exists on a dict only.
\<close>

definition try_extract :: "loads \<Rightarrow> completion \<Rightarrow> string \<Rightarrow> error + EntityExtractionResult" where
  "try_extract parse create text_chunk =
     (case create (extraction_prompt text_chunk) of
        Inl e \<Rightarrow> Inl e
      | Inr None \<Rightarrow> Inl AttributeError
      | Inr (Some content) \<Rightarrow>
          (case unfence (strip content) of
             Inl e \<Rightarrow> Inl e
           | Inr json_str \<Rightarrow>
               (case parse json_str of
                  None \<Rightarrow> Inl JSONDecodeError
                | Some (JObj extracted_data) \<Rightarrow>
                    Inr \<lparr>entities = dict_get extracted_data ''entities'' (JArr []),
                         relationships = dict_get extracted_data ''relationships'' (JArr []),
                         chunk_summary = dict_get extracted_data ''chunk_summary'' (JStr [])\<rparr>
                | Some _ \<Rightarrow> Inl AttributeError)))"

definition empty_result :: EntityExtractionResult where
  "empty_result = \<lparr>entities = JArr [], relationships = JArr [], chunk_summary = JStr []\<rparr>"

text \<open>\<^verbatim>\<open>except Exception\<close>: every exception of the body becomes the empty result.\<close>

definition extract_entities_from_chunk :: "loads \<Rightarrow> completion \<Rightarrow> string \<Rightarrow> EntityExtractionResult" where
  "extract_entities_from_chunk parse create text_chunk =
     (case try_extract parse create text_chunk of
        Inl e \<Rightarrow> empty_result
      | Inr result \<Rightarrow> result)"

subsection \<open>The graph store\<close>

text \<open>
  A labelled property graph: nodes with an identifier given by the store, labels and
  properties; directed edges with a type. The store gives identifiers from a counter.
\<close>

record node =
  nid :: nat
  labels :: "string list"
  props :: "(string \<times> json) list"

type_synonym edge = "nat \<times> string \<times> nat"

record graph =
  nodes :: "node list"
  edges :: "edge list"
  next_id :: nat

text \<open>
  The four statements the ingestion sends, with the values the source interpolates or
  passes as parameters:
  \<^item> \<^verbatim>\<open>CREATE (d:Document {chunk_id: $chunk_id, summary: $summary})\<close>
  \<^item> \<^verbatim>\<open>MERGE (e:<type> {name: $name}) SET e.description = $description\<close>
  \<^item> \<^verbatim>\<open>MATCH (d:Document {chunk_id: $chunk_id}) MATCH (e:<type> {name: $name})
      MERGE (d)-[:HAS_<TYPE>]->(e)\<close>
  \<^item> \<^verbatim>\<open>MATCH (a {name: $from_name}) MATCH (b {name: $to_name}) MERGE (a)-[:<type>]->(b)\<close>
  A label or relationship type is the text put into the statement. The semantics below are
  those of a statement in which that text is a plain name and the matched names are strings
  or null; \<open>session_run\<close> applies them to such statements only.
\<close>

datatype stmt =
    CreateDocument string json
  | MergeEntity string json json
  | LinkEntity string string json string
  | MergeRel json json string

text \<open>
  A property map \<open>{key: value}\<close> in a pattern matches a node that holds this value
  under this key; a null value matches nothing. Setting a property to null removes it.
  The values the statements of the model match on are strings, and two strings are the
  same value when they are the same text; a string is equal to no value of another type.
  (Numbers are compared by the store as numbers, whatever literal they were read from: a
  statement that matches on one is not among those the model gives a meaning to.)
\<close>

definition has_prop :: "node \<Rightarrow> string \<Rightarrow> json \<Rightarrow> bool" where
  "has_prop n key v = (v \<noteq> JNull \<and> map_of (props n) key = Some v)"

definition has_label :: "node \<Rightarrow> string \<Rightarrow> bool" where
  "has_label n l = (l \<in> set (labels n))"

definition set_prop :: "string \<Rightarrow> json \<Rightarrow> node \<Rightarrow> node" where
  "set_prop key v n =
     n\<lparr>props := (if v = JNull then AList.delete key (props n) else AList.update key v (props n))\<rparr>"

text \<open>\<^verbatim>\<open>MERGE\<close> of an edge between two bound nodes creates it unless one is there.\<close>

definition merge_edge :: "edge \<Rightarrow> edge list \<Rightarrow> edge list" where
  "merge_edge e es = (if e \<in> set es then es else es @ [e])"

definition merge_edges :: "edge list \<Rightarrow> edge list \<Rightarrow> edge list" where
  "merge_edges new es = fold merge_edge new es"

definition is_entity :: "string \<Rightarrow> json \<Rightarrow> node \<Rightarrow> bool" where
  "is_entity l name n = (has_label n l \<and> has_prop n ''name'' name)"

definition is_chunk :: "string \<Rightarrow> node \<Rightarrow> bool" where
  "is_chunk cid n = (has_label n ''Document'' \<and> has_prop n ''chunk_id'' (JStr cid))"

fun exec :: "stmt \<Rightarrow> graph \<Rightarrow> graph" where
  "exec (CreateDocument cid summary) g =
     g\<lparr>nodes := nodes g @
          [set_prop ''summary'' summary
             \<lparr>nid = next_id g, labels = [''Document''], props = [(''chunk_id'', JStr cid)]\<rparr>],
       next_id := Suc (next_id g)\<rparr>"
| "exec (MergeEntity l name description) g =
     (if list_ex (is_entity l name) (nodes g)
      then g\<lparr>nodes := map (\<lambda>n. if is_entity l name n then set_prop ''description'' description n
                                 else n) (nodes g)\<rparr>
      else g\<lparr>nodes := nodes g @
               [set_prop ''description'' description
                  \<lparr>nid = next_id g, labels = [l], props = [(''name'', name)]\<rparr>],
             next_id := Suc (next_id g)\<rparr>)"
| "exec (LinkEntity cid l name rel_type) g =
     g\<lparr>edges := merge_edges
          (concat (map (\<lambda>d. map (\<lambda>e. (nid d, rel_type, nid e))
                                (filter (is_entity l name) (nodes g)))
                       (filter (is_chunk cid) (nodes g))))
          (edges g)\<rparr>"
| "exec (MergeRel from_name to_name rel_type) g =
     g\<lparr>edges := merge_edges
          (concat (map (\<lambda>a. map (\<lambda>b. (nid a, rel_type, nid b))
                                (filter (\<lambda>n. has_prop n ''name'' to_name) (nodes g)))
                       (filter (\<lambda>n. has_prop n ''name'' from_name) (nodes g))))
          (edges g)\<rparr>"

text \<open>The store refuses to merge a node on a null property value.\<close>

fun null_merge :: "stmt \<Rightarrow> bool" where
  "null_merge (MergeEntity l name description) = (name = JNull)"
| "null_merge _ = False"

text \<open>
  The source puts the type of an entity or of a relationship into the text of the statement.
  The semantics above are those of a statement in which every such text is a plain name (a
  letter or an underscore, then letters, digits and underscores) and every value a pattern
  matches on is a string or null: there a label is the text itself and two values match
  when they are the same string. A text of another form (a name in backquotes, a blank,
  more clauses) makes another statement, and numbers match by value, not by the way they
  were written; such a statement is outside \<open>exec\<close>, and what the store does with it is
  a parameter of the model.
\<close>

definition name_start :: "char \<Rightarrow> bool" where
  "name_start c =
     (let n = (of_char c :: nat) in (65 \<le> n \<and> n \<le> 90) \<or> (97 \<le> n \<and> n \<le> 122) \<or> n = 95)"

definition name_part :: "char \<Rightarrow> bool" where
  "name_part c = (name_start c \<or> (let n = (of_char c :: nat) in 48 \<le> n \<and> n \<le> 57))"

definition cypher_name :: "string \<Rightarrow> bool" where
  "cypher_name s = (case s of [] \<Rightarrow> False | c # cs \<Rightarrow> name_start c \<and> list_all name_part cs)"

fun name_value :: "json \<Rightarrow> bool" where
  "name_value (JStr s) = True"
| "name_value JNull = True"
| "name_value _ = False"

fun modelled :: "stmt \<Rightarrow> bool" where
  "modelled (CreateDocument cid summary) = True"
| "modelled (MergeEntity l name description) = (cypher_name l \<and> name_value name)"
| "modelled (LinkEntity cid l name rel_type) =
     (cypher_name l \<and> cypher_name rel_type \<and> name_value name)"
| "modelled (MergeRel from_name to_name rel_type) =
     (cypher_name rel_type \<and> name_value from_name \<and> name_value to_name)"

text \<open>
  The store's part in a run: which of the statements above it refuses (a constraint, a value
  it cannot store, a lost connection), and its answer to a statement outside them.
\<close>

type_synonym refusals = "stmt \<Rightarrow> graph \<Rightarrow> bool"

type_synonym foreign = "stmt \<Rightarrow> graph \<Rightarrow> error option \<times> graph"

text \<open>
  \<^verbatim>\<open>session.run\<close>: each statement is its own transaction, so a statement that raises
  leaves the graph as the statements before it made it.
\<close>

definition session_run :: "refusals \<Rightarrow> foreign \<Rightarrow> stmt \<Rightarrow> graph \<Rightarrow> error option \<times> graph" where
  "session_run refuses other q g =
     (if modelled q
      then (if refuses q g \<or> null_merge q then (Some StoreError, g) else (None, exec q g))
      else other q g)"

definition and_then ::
  "error option \<times> graph \<Rightarrow> (graph \<Rightarrow> error option \<times> graph) \<Rightarrow> error option \<times> graph" where
  "and_then r f = (case r of (Some e, g) \<Rightarrow> (Some e, g) | (None, g) \<Rightarrow> f g)"

subsection \<open>Ingestion\<close>

definition digit_char :: "nat \<Rightarrow> char" where
  "digit_char d = char_of (48 + d)"

function str_nat :: "nat \<Rightarrow> string" where
  "str_nat n = (if n < 10 then [digit_char n] else str_nat (n div 10) @ [digit_char (n mod 10)])"
  by pat_completeness auto
termination
  by (relation "measure id") auto

declare str_nat.simps [simp del]

definition chunk_id :: "nat \<Rightarrow> string" where
  "chunk_id i = ''chunk_'' @ str_nat i"

text \<open>
  The text an f-string puts for a value in the place of a label: a string as it is, the
  names Python prints for \<^verbatim>\<open>None\<close>, the booleans and the floats that are no number.
  \<open>None\<close> where that text begins with a digit, a sign or a bracket (a number, a list, a
  dict): no Cypher name does, and the store answers the statement with a syntax error. A
  float literal of \<open>2 ^ 1024 - 2 ^ 970\<close> or more is the float \<^verbatim>\<open>inf\<close>. Whether the
  text of a string is a plain name is tested where the statement is run, by \<open>modelled\<close>.
\<close>

definition float_is_inf :: "pyfloat \<Rightarrow> bool" where
  "float_is_inf f =
     (case f of
        Finite m e \<Rightarrow>
          0 < m \<and> (if 0 \<le> e then 2 ^ 1024 - 2 ^ 970 \<le> m * 10 ^ nat e
                   else (2 ^ 1024 - 2 ^ 970) * 10 ^ nat (- e) \<le> m)
      | NaN \<Rightarrow> False
      | Inf negative \<Rightarrow> \<not> negative)"

fun fstring_label :: "json \<Rightarrow> string option" where
  "fstring_label (JStr s) = Some s"
| "fstring_label JNull = Some ''None''"
| "fstring_label (JBool b) = Some (if b then ''True'' else ''False'')"
| "fstring_label (JFloat f) =
     (if f = NaN then Some ''nan'' else if float_is_inf f then Some ''inf'' else None)"
| "fstring_label _ = None"

text \<open>\<^verbatim>\<open>x.upper()\<close> and \<^verbatim>\<open>x.get(key, default)\<close> on a parsed value.\<close>

fun py_upper :: "json \<Rightarrow> error + string" where
  "py_upper (JStr s) = Inr (upper s)"
| "py_upper _ = Inl AttributeError"

fun py_get :: "json \<Rightarrow> string \<Rightarrow> json \<Rightarrow> error + json" where
  "py_get (JObj d) key dflt = Inr (dict_get d key dflt)"
| "py_get _ key dflt = Inl AttributeError"

text \<open>The body of \<^verbatim>\<open>for entity in extraction.entities\<close>.\<close>

definition write_entity :: "refusals \<Rightarrow> foreign \<Rightarrow> string \<Rightarrow> json \<Rightarrow> graph \<Rightarrow> error option \<times> graph" where
  "write_entity refuses other cid entity g =
     (case py_getitem entity ''type'' of
        Inl e \<Rightarrow> (Some e, g)
      | Inr ty \<Rightarrow>
     (case py_getitem entity ''name'' of
        Inl e \<Rightarrow> (Some e, g)
      | Inr name \<Rightarrow>
     (case py_get entity ''description'' (JStr []) of
        Inl e \<Rightarrow> (Some e, g)
      | Inr description \<Rightarrow>
     (case fstring_label ty of
        None \<Rightarrow> (Some StoreError, g)
      | Some l \<Rightarrow>
          and_then (session_run refuses other (MergeEntity l name description) g)
            (\<lambda>g1. case py_upper ty of
                     Inl e \<Rightarrow> (Some e, g1)
                   | Inr up \<Rightarrow> session_run refuses other (LinkEntity cid l name (''HAS_'' @ up)) g1)))))"

text \<open>The body of \<^verbatim>\<open>for rel in extraction.relationships\<close>.\<close>

definition write_rel :: "refusals \<Rightarrow> foreign \<Rightarrow> json \<Rightarrow> graph \<Rightarrow> error option \<times> graph" where
  "write_rel refuses other rel g =
     (case py_getitem rel ''type'' of
        Inl e \<Rightarrow> (Some e, g)
      | Inr ty \<Rightarrow>
     (case py_getitem rel ''from'' of
        Inl e \<Rightarrow> (Some e, g)
      | Inr from_name \<Rightarrow>
     (case py_getitem rel ''to'' of
        Inl e \<Rightarrow> (Some e, g)
      | Inr to_name \<Rightarrow>
     (case fstring_label ty of
        None \<Rightarrow> (Some StoreError, g)
      | Some l \<Rightarrow> session_run refuses other (MergeRel from_name to_name l) g))))"

fun write_entities :: "refusals \<Rightarrow> foreign \<Rightarrow> string \<Rightarrow> json list \<Rightarrow> graph \<Rightarrow> error option \<times> graph" where
  "write_entities refuses other cid [] g = (None, g)"
| "write_entities refuses other cid (entity # rest) g =
     and_then (write_entity refuses other cid entity g) (write_entities refuses other cid rest)"

fun write_rels :: "refusals \<Rightarrow> foreign \<Rightarrow> json list \<Rightarrow> graph \<Rightarrow> error option \<times> graph" where
  "write_rels refuses other [] g = (None, g)"
| "write_rels refuses other (rel # rest) g =
     and_then (write_rel refuses other rel g) (write_rels refuses other rest)"

text \<open>
  The writes of one chunk, the part of the loop body after the \<^verbatim>\<open>continue\<close>: the
  Document node, then the entities, then the relationships.
\<close>

definition write_chunk :: "refusals \<Rightarrow> foreign \<Rightarrow> nat \<Rightarrow> EntityExtractionResult \<Rightarrow> graph \<Rightarrow> error option \<times> graph" where
  "write_chunk refuses other i extraction g =
     and_then (session_run refuses other (CreateDocument (chunk_id i) (chunk_summary extraction)) g)
       (\<lambda>g1. case py_iter (entities extraction) of
                Inl e \<Rightarrow> (Some e, g1)
              | Inr es \<Rightarrow>
                  and_then (write_entities refuses other (chunk_id i) es g1)
                    (\<lambda>g2. case py_iter (relationships extraction) of
                             Inl e \<Rightarrow> (Some e, g2)
                           | Inr rs \<Rightarrow> write_rels refuses other rs g2))"

text \<open>
  The same loop body read as a list: the statements a chunk sends, in the order of the
  source, and between them the exceptions Python raises before a statement is sent. A run
  of the list stops at the first exception, of Python or of the store.
\<close>

type_synonym step = "error + stmt"





text \<open>
  What a run leaves behind: the exception that ended it, if any (the function itself
  returns nothing), the graph in the store, and the chunk texts given to the extractor,
  in order. A document is the text of a chunk, the only field the loop reads; the
  completion service is asked once per chunk, \<open>create i\<close> answering for chunk \<open>i\<close>.
\<close>

record run =
  raised :: "error option"
  store :: graph
  extracted :: "string list"

type_synonym document = string

definition after_extracting :: "string \<Rightarrow> run \<Rightarrow> run" where
  "after_extracting doc r = r\<lparr>extracted := doc # extracted r\<rparr>"

fun ingest_loop ::
  "loads \<Rightarrow> (nat \<Rightarrow> completion) \<Rightarrow> refusals \<Rightarrow> foreign \<Rightarrow> nat \<Rightarrow> document list \<Rightarrow> graph \<Rightarrow> run" where
  "ingest_loop parse create refuses other i [] g = \<lparr>raised = None, store = g, extracted = []\<rparr>"
| "ingest_loop parse create refuses other i (doc # docs) g =
     (let extraction = extract_entities_from_chunk parse (create i) doc
      in if \<not> py_truthy (entities extraction)
         then after_extracting doc (ingest_loop parse create refuses other (Suc i) docs g)
         else (case write_chunk refuses other i extraction g of
                 (Some e, g') \<Rightarrow> \<lparr>raised = Some e, store = g', extracted = [doc]\<rparr>
               | (None, g') \<Rightarrow>
                   after_extracting doc (ingest_loop parse create refuses other (Suc i) docs g')))"

text \<open>\<^verbatim>\<open>for i, doc in enumerate(documents[:20])\<close>.\<close>

definition ingest_documents_semantically ::
  "loads \<Rightarrow> (nat \<Rightarrow> completion) \<Rightarrow> refusals \<Rightarrow> foreign \<Rightarrow> document list \<Rightarrow> graph \<Rightarrow> run" where
  "ingest_documents_semantically parse create refuses other documents g =
     ingest_loop parse create refuses other 0 (take 20 documents) g"

subsection \<open>The chain-of-thought query\<close>

text \<open>
  The retriever of the query engine is outside the repository: a function from the question
  to the texts of the retrieved nodes, or an exception. The completion client is the one of
  \<^verbatim>\<open>SemanticGraphRAG\<close>; the function returns the content of the reply as it is.
\<close>

type_synonym retriever = "string \<Rightarrow> error + string list"

fun join_str :: "string \<Rightarrow> string list \<Rightarrow> string" where
  "join_str sep [] = []"
| "join_str sep [x] = x"
| "join_str sep (x # y # ys) = x @ sep @ join_str sep (y # ys)"

definition cot_prompt :: "string \<Rightarrow> string \<Rightarrow> string" where
  \<open>cot_prompt context question =
     ''You are an expert SAP HANA on VMware consultant. Answer the question using chain-of-thought reasoning.\<newline>'' @
     ''\<newline>'' @
     ''CONTEXT from semantic knowledge graph:\<newline>'' @
     context @
     ''\<newline>\<newline>'' @
     ''QUESTION: '' @ question @ ''\<newline>'' @
     ''\<newline>'' @
     ''Think step-by-step:\<newline>'' @
     ''1. What SAP HANA concepts are involved in this question?\<newline>'' @
     ''2. What configuration parameters or components are relevant?\<newline>'' @
     ''3. How do these elements interact in a VMware environment?\<newline>'' @
     ''4. What specific recommendations apply?\<newline>'' @
     ''\<newline>'' @
     ''FINAL ANSWER: Provide a comprehensive response based on your analysis, including specific parameters and recommendations.''\<close>

definition query_with_chain_of_thought ::
  "retriever \<Rightarrow> completion \<Rightarrow> string \<Rightarrow> error + string option" where
  "query_with_chain_of_thought retrieve create question =
     (case retrieve question of
        Inl e \<Rightarrow> Inl e
      | Inr retrieved_context \<Rightarrow>
          (let context_parts = map (\<lambda>node_text. ''- '' @ node_text) retrieved_context;
               context = join_str ''\<newline>'' context_parts
           in case create (cot_prompt context question) of
                Inl e \<Rightarrow> Inl e
              | Inr content \<Rightarrow> Inr content))"

section \<open>Properties\<close>

subsection \<open>The extractor's fallback\<close>

lemma split_str_nonempty: "split_str s sep \<noteq> []"
  by (subst split_str.simps) (simp split: option.split)

lemma split_str_at_start:
  assumes "startswith s sep" and "sep \<noteq> []"
  shows "split_str s sep = [] # split_str (drop (length sep) s) sep"
proof -
  from assms have "find_str s sep = Some 0"
    by (cases s) (auto simp: startswith_def)
  with assms(2) show ?thesis
    by (subst split_str.simps) simp
qed

lemma unfence_total: "\<exists>t. unfence s = Inr t"
proof (cases "startswith s ''```json''")
  case False
  then show ?thesis by (simp add: unfence_def)
next
  case True
  obtain p ps where p: "split_str (drop (length ''```json'') s) ''```json'' = p # ps"
    using split_str_nonempty by (cases "split_str (drop (length ''```json'') s) ''```json''") auto
  obtain q qs where q: "split_str p ''```'' = q # qs"
    using split_str_nonempty by (cases "split_str p ''```''") auto
  have "split_str s ''```json'' = [] # p # ps"
    using split_str_at_start [OF True] p by simp
  with True q show ?thesis by (simp add: unfence_def)
qed

text \<open>
  Claim C2. Whenever the completion request raises, or the text handed to the parser (the
  reply, stripped and unfenced) does not parse, \<open>extract_entities_from_chunk\<close> returns the
  result with an empty entity list, an empty relationship list and an empty summary. The
  function has no error value at all: the \<^verbatim>\<open>except\<close> clause turns every exception of
  the body into this result.
\<close>

theorem extraction_failure_gives_empty_result:
  assumes "(\<exists>e. create (extraction_prompt text_chunk) = Inl e) \<or>
           (\<exists>content json_str. create (extraction_prompt text_chunk) = Inr (Some content) \<and>
               unfence (strip content) = Inr json_str \<and> parse json_str = None)"
  shows "extract_entities_from_chunk parse create text_chunk =
           \<lparr>entities = JArr [], relationships = JArr [], chunk_summary = JStr []\<rparr>"
  using assms
  by (auto simp: extract_entities_from_chunk_def try_extract_def empty_result_def)

lemma unfence_plain: "unfence ''not json'' = Inr ''not json''"
  by (simp add: unfence_def startswith_def)

lemma strip_plain: "strip ''not json'' = ''not json''"
  by (simp add: strip_def py_isspace_def)

lemma loads_plain: "json_loads ''not json'' = None"
  by code_simp

theorem extraction_failure_gives_empty_result_witness:
  "json_loads (strip ''not json'') = None \<and>
   extract_entities_from_chunk json_loads (\<lambda>prompt. Inr (Some ''not json'')) ''NUMA nodes'' =
     \<lparr>entities = JArr [], relationships = JArr [], chunk_summary = JStr []\<rparr> \<and>
   extract_entities_from_chunk json_loads (\<lambda>prompt. Inl APIError) ''NUMA nodes'' =
     \<lparr>entities = JArr [], relationships = JArr [], chunk_summary = JStr []\<rparr>"
proof -
  have a: "(\<exists>e. (\<lambda>prompt. Inr (Some ''not json'')) (extraction_prompt ''NUMA nodes'') = Inl e) \<or>
           (\<exists>content json_str.
               (\<lambda>prompt. Inr (Some ''not json'')) (extraction_prompt ''NUMA nodes'') = Inr (Some content) \<and>
               unfence (strip content) = Inr json_str \<and> json_loads json_str = None)"
    using unfence_plain strip_plain loads_plain by simp
  have b: "(\<exists>e. (\<lambda>prompt. Inl APIError) (extraction_prompt ''NUMA nodes'') = Inl e) \<or>
           (\<exists>content json_str.
               (\<lambda>prompt. Inl APIError) (extraction_prompt ''NUMA nodes'') = Inr (Some content) \<and>
               unfence (strip content) = Inr json_str \<and> json_loads json_str = None)"
    by simp
  show ?thesis
    using extraction_failure_gives_empty_result [OF a] extraction_failure_gives_empty_result [OF b]
      strip_plain loads_plain by simp
qed

subsection \<open>Missing fields\<close>

definition summary_only :: string where
  \<open>summary_only = ''{"chunk_summary": "NUMA"}''\<close>

lemma strip_summary_only: "strip summary_only = summary_only"
  by (simp add: summary_only_def strip_def py_isspace_def)

lemma unfence_summary_only: "unfence summary_only = Inr summary_only"
  by (simp add: summary_only_def unfence_def startswith_def)

lemma loads_summary_only: "json_loads summary_only = Some (JObj [(''chunk_summary'', JStr ''NUMA'')])"
  unfolding summary_only_def by code_simp

text \<open>
  Claim C10. When the text handed to the parser is a JSON object, each of the three fields
  of the result is the value the object holds under that key, and the default (an empty
  list, an empty list, the empty string) where the key is missing: a missing field does
  not send the other fields to the fallback.
\<close>

theorem missing_fields_get_defaults:
  assumes "create (extraction_prompt text_chunk) = Inr (Some content)"
    and "unfence (strip content) = Inr json_str"
    and "parse json_str = Some (JObj d)"
  shows "extract_entities_from_chunk parse create text_chunk =
           \<lparr>entities = (case map_of d ''entities'' of None \<Rightarrow> JArr [] | Some v \<Rightarrow> v),
            relationships = (case map_of d ''relationships'' of None \<Rightarrow> JArr [] | Some v \<Rightarrow> v),
            chunk_summary = (case map_of d ''chunk_summary'' of None \<Rightarrow> JStr [] | Some v \<Rightarrow> v)\<rparr>"
  using assms
  by (simp add: extract_entities_from_chunk_def try_extract_def dict_get_def split: option.split)

theorem missing_fields_get_defaults_witness:
  "json_loads summary_only = Some (JObj [(''chunk_summary'', JStr ''NUMA'')]) \<and>
   extract_entities_from_chunk json_loads (\<lambda>prompt. Inr (Some summary_only)) ''NUMA nodes'' =
     \<lparr>entities = JArr [], relationships = JArr [], chunk_summary = JStr ''NUMA''\<rparr>"
  using missing_fields_get_defaults
      [where create = "\<lambda>prompt. Inr (Some summary_only)" and text_chunk = "''NUMA nodes''"
         and content = summary_only and json_str = summary_only and parse = json_loads
         and d = "[(''chunk_summary'', JStr ''NUMA'')]"]
    strip_summary_only unfence_summary_only loads_summary_only
  by simp

subsection \<open>The ingestion loop\<close>

definition empty_graph :: graph where
  "empty_graph = \<lparr>nodes = [], edges = [], next_id = 0\<rparr>"

definition one_concept :: string where
  \<open>one_concept = ''{"entities": [{"type": "Concept", "name": "NUMA"}]}''\<close>

lemma strip_one_concept: "strip one_concept = one_concept"
  by (simp add: one_concept_def strip_def py_isspace_def)

lemma unfence_one_concept: "unfence one_concept = Inr one_concept"
  by (simp add: one_concept_def unfence_def startswith_def)

lemma loads_one_concept:
  "json_loads one_concept =
     Some (JObj [(''entities'', JArr [JObj [(''type'', JStr ''Concept''), (''name'', JStr ''NUMA'')]])])"
  unfolding one_concept_def by code_simp

lemma extract_one_concept:
  "extract_entities_from_chunk json_loads (\<lambda>prompt. Inr (Some one_concept)) doc =
     \<lparr>entities = JArr [JObj [(''type'', JStr ''Concept''), (''name'', JStr ''NUMA'')]],
      relationships = JArr [], chunk_summary = JStr []\<rparr>"
  by (simp add: extract_entities_from_chunk_def try_extract_def dict_get_def
      strip_one_concept unfence_one_concept loads_one_concept)

definition rejects_foreign :: foreign where
  "rejects_foreign q g = (Some StoreError, g)"

lemma extract_summary_only:
  "extract_entities_from_chunk json_loads (\<lambda>prompt. Inr (Some summary_only)) doc =
     \<lparr>entities = JArr [], relationships = JArr [], chunk_summary = JStr ''NUMA''\<rparr>"
  by (simp add: extract_entities_from_chunk_def try_extract_def dict_get_def
      strip_summary_only unfence_summary_only loads_summary_only)

text \<open>
  Claim C8. A chunk whose extraction has the empty entity list is skipped: the loop goes on
  with the next chunk on the graph as it was, so nothing is written for this chunk, and a
  run of this chunk alone ends without an exception and leaves the graph unchanged.
\<close>

theorem chunk_without_entities_is_skipped:
  assumes "entities (extract_entities_from_chunk parse (create i) doc) = JArr []"
  shows "ingest_loop parse create refuses other i (doc # docs) g =
           after_extracting doc (ingest_loop parse create refuses other (Suc i) docs g) \<and>
         ingest_loop parse create refuses other i [doc] g =
           \<lparr>raised = None, store = g, extracted = [doc]\<rparr>"
  using assms by (simp add: after_extracting_def)

theorem chunk_without_entities_is_skipped_witness:
  "entities (extract_entities_from_chunk json_loads (\<lambda>prompt. Inr (Some summary_only)) ''NUMA nodes'') = JArr [] \<and>
   ingest_loop json_loads (\<lambda>i prompt. Inr (Some summary_only)) (\<lambda>q g. False) rejects_foreign 0
     [''NUMA nodes''] empty_graph =
     \<lparr>raised = None, store = empty_graph, extracted = [''NUMA nodes'']\<rparr>"
proof -
  have a: "entities (extract_entities_from_chunk json_loads ((\<lambda>i prompt. Inr (Some summary_only)) 0) ''NUMA nodes'') = JArr []"
    by (simp add: extract_summary_only)
  show ?thesis
    using chunk_without_entities_is_skipped
        [OF a, where refuses = "\<lambda>q g. False" and other = rejects_foreign and docs = "[]"
           and g = empty_graph] a
    by simp
qed

lemma extracted_ingest_loop:
  "extracted (ingest_loop parse create refuses other i docs g) =
     take (length (extracted (ingest_loop parse create refuses other i docs g))) docs"
  by (induction docs arbitrary: i g)
     (auto simp: Let_def after_extracting_def split: prod.splits option.splits)

lemma skipped_chunks:
  assumes "\<forall>k<length skipped.
             entities (extract_entities_from_chunk parse (create (i + k)) (skipped ! k)) = JArr []"
  shows "ingest_loop parse create refuses other i (skipped @ docs) g =
           (ingest_loop parse create refuses other (i + length skipped) docs g)
             \<lparr>extracted := skipped @ extracted (ingest_loop parse create refuses other (i + length skipped) docs g)\<rparr>"
  using assms
proof (induction skipped arbitrary: i)
  case Nil
  show ?case by simp
next
  case (Cons doc skipped)
  from Cons.prems have "entities (extract_entities_from_chunk parse (create (i + 0)) ((doc # skipped) ! 0)) = JArr []"
    by blast
  then have d: "entities (extract_entities_from_chunk parse (create i) doc) = JArr []"
    by simp
  have "\<forall>k<length skipped.
          entities (extract_entities_from_chunk parse (create (Suc i + k)) (skipped ! k)) = JArr []"
  proof (intro allI impI)
    fix k
    assume "k < length skipped"
    then have "Suc k < length (doc # skipped)" by simp
    with Cons.prems
    have "entities (extract_entities_from_chunk parse (create (i + Suc k)) ((doc # skipped) ! Suc k)) = JArr []"
      by blast
    then show "entities (extract_entities_from_chunk parse (create (Suc i + k)) (skipped ! k)) = JArr []"
      by simp
  qed
  from Cons.IH [OF this] d show ?case
    by (simp add: after_extracting_def)
qed

text \<open>
  Claim C7, amended. The loop runs over \<^verbatim>\<open>documents[:20]\<close>, with the cap the literal 20.
  A run on a sequence of at least 20 chunks followed by any others is the run on its first
  20 chunks (same exception, same graph, same requests to the extractor); at most 20 chunks
  are given to the extractor, and they are an initial segment of the input.
\<close>

theorem chunks_past_the_cap_are_ignored:
  "(20 \<le> length docs \<longrightarrow>
        ingest_documents_semantically parse create refuses other (docs @ later) g =
        ingest_documents_semantically parse create refuses other (take 20 docs) g)
   \<and> length (extracted (ingest_documents_semantically parse create refuses other docs g)) \<le> 20
   \<and> extracted (ingest_documents_semantically parse create refuses other docs g) =
       take (length (extracted (ingest_documents_semantically parse create refuses other docs g))) docs"
proof -
  let ?r = "ingest_loop parse create refuses other 0 (take 20 docs) g"
  have e: "extracted ?r = take (length (extracted ?r)) (take 20 docs)"
    by (rule extracted_ingest_loop)
  then have l: "length (extracted ?r) \<le> 20"
    by (metis length_take min.boundedE le_refl)
  from e l have "extracted ?r = take (length (extracted ?r)) docs"
    by (simp add: min_def)
  with l show ?thesis
    by (simp add: ingest_documents_semantically_def)
qed

definition nineteen_chunks :: "document list" where
  "nineteen_chunks = replicate 19 ''NUMA nodes''"

definition entities_from_twentieth :: "nat \<Rightarrow> completion" where
  "entities_from_twentieth i =
     (if i < 19 then (\<lambda>prompt. Inr (Some summary_only)) else (\<lambda>prompt. Inr (Some one_concept)))"

definition twentieth_written :: graph where
  "twentieth_written =
     \<lparr>nodes = [\<lparr>nid = 0, labels = [''Document''],
                props = [(''chunk_id'', JStr ''chunk_19''), (''summary'', JStr [])]\<rparr>,
               \<lparr>nid = 1, labels = [''Concept''],
                props = [(''name'', JStr ''NUMA''), (''description'', JStr [])]\<rparr>],
      edges = [(0, ''HAS_CONCEPT'', 1)], next_id = 2\<rparr>"

lemma chunk_id_19: "chunk_id 19 = ''chunk_19''"
  by code_simp

lemma name_Concept: "cypher_name ''Concept''" "cypher_name ''HAS_CONCEPT''"
  by code_simp+

lemma upper_Concept: "upper ''Concept'' = ''CONCEPT''"
  by code_simp

lemma write_twentieth:
  "write_chunk (\<lambda>q g. False) rejects_foreign 19
     \<lparr>entities = JArr [JObj [(''type'', JStr ''Concept''), (''name'', JStr ''NUMA'')]],
      relationships = JArr [], chunk_summary = JStr []\<rparr> empty_graph = (None, twentieth_written)"
  by (simp add: write_chunk_def write_entity_def session_run_def and_then_def chunk_id_19
      name_Concept upper_Concept dict_get_def set_prop_def is_entity_def is_chunk_def has_label_def
      has_prop_def merge_edges_def merge_edge_def empty_graph_def twentieth_written_def)

lemma run_of_twenty:
  "ingest_loop json_loads entities_from_twentieth (\<lambda>q g. False) rejects_foreign 0
     (nineteen_chunks @ [''vSphere hosts'']) empty_graph =
   \<lparr>raised = None, store = twentieth_written, extracted = nineteen_chunks @ [''vSphere hosts'']\<rparr>"
proof -
  have s: "\<forall>k<length nineteen_chunks.
             entities (extract_entities_from_chunk json_loads (entities_from_twentieth (0 + k))
               (nineteen_chunks ! k)) = JArr []"
    by (simp add: nineteen_chunks_def entities_from_twentieth_def extract_summary_only)
  have l: "ingest_loop json_loads entities_from_twentieth (\<lambda>q g. False) rejects_foreign 19
             [''vSphere hosts''] empty_graph =
           \<lparr>raised = None, store = twentieth_written, extracted = [''vSphere hosts'']\<rparr>"
    by (simp add: entities_from_twentieth_def extract_one_concept write_twentieth after_extracting_def)
  have n: "0 + length nineteen_chunks = 19"
    by (simp add: nineteen_chunks_def)
  show ?thesis
    unfolding skipped_chunks [OF s] n l by simp
qed

text \<open>
  Claim C7, as the specification states it, fails in one point: the cap is no setting. The
  ingestion takes the documents and nothing that could hold a cap; the cap is the literal 20
  of \<^verbatim>\<open>documents[:20]\<close>, and the settings of the repository have no field for it. In this
  run of 21 chunks the replies for the twentieth and the twenty-first chunk both hold an
  entity: the twentieth chunk is extracted and written, the twenty-first is not given to the
  extractor.
\<close>

theorem configured_cap_counterexample:
  "ingest_documents_semantically json_loads entities_from_twentieth (\<lambda>q g. False) rejects_foreign
     (nineteen_chunks @ [''vSphere hosts'', ''Guest OS'']) empty_graph =
   \<lparr>raised = None, store = twentieth_written, extracted = nineteen_chunks @ [''vSphere hosts'']\<rparr> \<and>
   entities (extract_entities_from_chunk json_loads (entities_from_twentieth 20) ''Guest OS'') =
     JArr [JObj [(''type'', JStr ''Concept''), (''name'', JStr ''NUMA'')]]"
  using run_of_twenty
  by (simp add: ingest_documents_semantically_def nineteen_chunks_def entities_from_twentieth_def
      extract_one_concept)

theorem chunks_past_the_cap_are_ignored_witness:
  "20 \<le> length (nineteen_chunks @ [''vSphere hosts'']) \<and>
   ingest_documents_semantically json_loads entities_from_twentieth (\<lambda>q g. False) rejects_foreign
     ((nineteen_chunks @ [''vSphere hosts'']) @ [''Guest OS'', ''SAP HANA'']) empty_graph =
   \<lparr>raised = None, store = twentieth_written, extracted = nineteen_chunks @ [''vSphere hosts'']\<rparr>"
proof -
  have a: "20 \<le> length (nineteen_chunks @ [''vSphere hosts''])"
    by (simp add: nineteen_chunks_def)
  have b: "take 20 (nineteen_chunks @ [''vSphere hosts'']) = nineteen_chunks @ [''vSphere hosts'']"
    by (simp add: nineteen_chunks_def)
  have c: "ingest_documents_semantically json_loads entities_from_twentieth (\<lambda>q g. False) rejects_foreign
             (take 20 (nineteen_chunks @ [''vSphere hosts''])) empty_graph =
           \<lparr>raised = None, store = twentieth_written, extracted = nineteen_chunks @ [''vSphere hosts'']\<rparr>"
    unfolding ingest_documents_semantically_def b by (rule run_of_twenty)
  show ?thesis
    using chunks_past_the_cap_are_ignored
      [where docs = "nineteen_chunks @ [''vSphere hosts'']" and parse = json_loads
         and create = entities_from_twentieth and refuses = "\<lambda>q g. False" and other = rejects_foreign
         and later = "[''Guest OS'', ''SAP HANA'']" and g = empty_graph]
      a c by simp
qed

subsection \<open>A failing write\<close>





























subsection \<open>Answer synthesis\<close>

text \<open>
  Claim C4. When the retriever has returned and the completion request of the synthesis
  raises, \<open>query_with_chain_of_thought\<close> ends with that exception: no answer is put in its
  place.
\<close>

theorem synthesis_failure_propagates:
  assumes "retrieve question = Inr retrieved_context"
    and "create (cot_prompt (join_str ''\<newline>'' (map (\<lambda>node_text. ''- '' @ node_text) retrieved_context))
                  question) = Inl e"
  shows "query_with_chain_of_thought retrieve create question = Inl e"
  by (simp only: query_with_chain_of_thought_def Let_def assms sum.case)

theorem synthesis_failure_propagates_witness:
  "query_with_chain_of_thought (\<lambda>question. Inr [''NUMA Optimization'', ''vSphere''])
     (\<lambda>prompt. Inl APIError) ''How should I configure CPU affinity settings?'' = Inl APIError"
  using synthesis_failure_propagates
      [where retrieve = "\<lambda>question. Inr [''NUMA Optimization'', ''vSphere'']"
         and create = "\<lambda>prompt. Inl APIError"
         and question = "''How should I configure CPU affinity settings?''"
         and retrieved_context = "[''NUMA Optimization'', ''vSphere'']" and e = APIError]
  by simp

subsection \<open>Relationships\<close>




















definition involves :: "string \<Rightarrow> string \<Rightarrow> json" where
  "involves from_name to_name =
     JObj [(''from'', JStr from_name), (''to'', JStr to_name), (''type'', JStr ''INVOLVES_COMPONENT'')]"













definition affects :: json where
  "affects = JObj [(''from'', JStr ''vSphere''), (''to'', JStr ''NUMA''), (''type'', JStr ''AFFECTS'')]"



subsection \<open>The code fence\<close>

lemma find_str_Some:
  "find_str s sub = Some i \<Longrightarrow>
     startswith (drop i s) sub \<and> (\<forall>k<i. \<not> startswith (drop k s) sub)"
proof (induction s arbitrary: i)
  case Nil
  then show ?case by (simp add: startswith_def split: if_splits)
next
  case (Cons c cs)
  show ?case
  proof (cases "startswith (c # cs) sub")
    case True
    with Cons.prems show ?thesis by simp
  next
    case False
    with Cons.prems obtain j where j: "find_str cs sub = Some j" "i = Suc j" by auto
    from Cons.IH [OF j(1)] have "startswith (drop j cs) sub" "\<forall>k<j. \<not> startswith (drop k cs) sub"
      by simp_all
    with False j(2) show ?thesis
      by (auto simp: less_Suc_eq_0_disj)
  qed
qed

lemma find_str_None:
  "find_str s sub = None \<Longrightarrow> \<not> startswith (drop k s) sub"
proof (induction s arbitrary: k)
  case Nil
  then show ?case by (simp add: startswith_def split: if_splits)
next
  case (Cons c cs)
  then have n: "\<not> startswith (c # cs) sub" "find_str cs sub = None"
    by (auto split: if_splits)
  show ?case
  proof (cases k)
    case 0
    with n show ?thesis by simp
  next
    case (Suc j)
    with Cons.IH [OF n(2)] show ?thesis by simp
  qed
qed

lemma find_str_first:
  assumes "startswith (drop i s) sub" and "\<forall>k<i. \<not> startswith (drop k s) sub"
  shows "find_str s sub = Some i"
proof (cases "find_str s sub")
  case None
  with assms(1) show ?thesis using find_str_None by blast
next
  case (Some j)
  from find_str_Some [OF Some] have j: "startswith (drop j s) sub" "\<forall>k<j. \<not> startswith (drop k s) sub"
    by simp_all
  with assms have "\<not> j < i" "\<not> i < j" by blast+
  with Some show ?thesis by simp
qed

lemma split_str_first:
  assumes "sep \<noteq> []"
  shows "\<exists>ps. split_str s sep = (case find_str s sep of None \<Rightarrow> s | Some i \<Rightarrow> take i s) # ps"
  using assms by (subst split_str.simps) (simp split: option.split)

lemma startswith_append:
  assumes "startswith s (a @ b)"
  shows "startswith s a" and "startswith (drop (length a) s) b"
proof -
  from assms have t: "take (length a + length b) s = a @ b"
    by (simp add: startswith_def)
  then have l: "length a + length b \<le> length s"
    by (metis length_append length_take min.absorb_iff2 add.commute min.commute)
  from t have "take (length a) (take (length a + length b) s) = a"
    by simp
  then show "startswith s a"
    by (simp add: startswith_def min_def)
  from t have "drop (length a) (take (length a + length b) s) = b"
    by simp
  then show "startswith (drop (length a) s) b"
    by (simp add: startswith_def drop_take)
qed

lemma startswith_in_take:
  assumes "startswith (drop k (take j t)) p" and "p \<noteq> []"
  shows "startswith (drop k t) p" and "k + length p \<le> j"
proof -
  from assms(1) have e: "take (length p) (take (j - k) (drop k t)) = p"
    by (simp add: startswith_def drop_take)
  then have "length (take (length p) (take (j - k) (drop k t))) = length p"
    by simp
  then have l: "length p \<le> j - k"
    by simp
  with assms(2) show "k + length p \<le> j"
    by (cases p) auto
  from e l show "startswith (drop k t) p"
    by (simp add: startswith_def min_def)
qed

lemma find_str_in_take:
  assumes "find_str t p = Some i" and "p \<noteq> []"
  shows "find_str (take j t) p = (if i + length p \<le> j then Some i else None)"
proof (cases "i + length p \<le> j")
  case True
  from find_str_Some [OF assms(1)]
  have s: "startswith (drop i t) p" and m: "\<forall>k<i. \<not> startswith (drop k t) p"
    by simp_all
  from True have "length p \<le> j - i"
    by arith
  with s have "startswith (drop i (take j t)) p"
    by (simp add: startswith_def drop_take min_def)
  moreover have "\<forall>k<i. \<not> startswith (drop k (take j t)) p"
    using m startswith_in_take(1) [OF _ assms(2)] by blast
  ultimately have "find_str (take j t) p = Some i"
    by (rule find_str_first)
  with True show ?thesis by simp
next
  case False
  have "find_str (take j t) p = None"
  proof (cases "find_str (take j t) p")
    case None
    then show ?thesis .
  next
    case (Some k)
    from find_str_Some [OF Some] have "startswith (drop k (take j t)) p"
      by simp
    from startswith_in_take [OF this assms(2)]
    have k: "startswith (drop k t) p" "k + length p \<le> j"
      by simp_all
    from find_str_Some [OF assms(1)] k(1) have "\<not> k < i"
      by blast
    with k(2) False show ?thesis by simp
  qed
  with False show ?thesis by simp
qed

lemma unfence_opened:
  assumes i: "find_str t ''```'' = Some i"
    and n1: "\<not> startswith (drop (i + 3) t) ''`json''"
    and n2: "\<not> startswith (drop (i + 3) t) ''``json''"
  shows "unfence (''```json'' @ t) = Inr (take i t)"
proof -
  let ?s = "''```json'' @ t"
  let ?part = "case find_str t ''```json'' of None \<Rightarrow> t | Some j \<Rightarrow> take j t"
  have st: "startswith ?s ''```json''"
    by (simp add: startswith_def)
  obtain ps where ps: "split_str t ''```json'' = ?part # ps"
    using split_str_first [where sep = "''```json''" and s = t] by auto
  have "split_str ?s ''```json'' = [] # split_str (drop (length ''```json'') ?s) ''```json''"
    using st by (rule split_str_at_start) simp
  then have sp: "split_str ?s ''```json'' = [] # ?part # ps"
    using ps by simp
  obtain qs where qs: "split_str ?part ''```'' =
      (case find_str ?part ''```'' of None \<Rightarrow> ?part | Some k \<Rightarrow> take k ?part) # qs"
    using split_str_first [where sep = "''```''" and s = ?part] by auto
  from find_str_Some [OF i]
  have si: "startswith (drop i t) ''```''" and mi: "\<forall>k<i. \<not> startswith (drop k t) ''```''"
    by simp_all
  have inner: "(case find_str ?part ''```'' of None \<Rightarrow> ?part | Some k \<Rightarrow> take k ?part) = take i t"
  proof (cases "find_str t ''```json''")
    case None
    with i show ?thesis by simp
  next
    case (Some j)
    from find_str_Some [OF Some] have j: "startswith (drop j t) (''```'' @ ''json'')"
      by simp
    from startswith_append(1) [OF j] mi have ge: "i \<le> j"
      by (cases "j < i") auto
    have a1: "j \<noteq> i + 1"
    proof
      assume e: "j = i + 1"
      have "startswith (drop j t) (''``'' @ ''`json'')"
        using j by simp
      from startswith_append(2) [OF this] e have "startswith (drop (i + 3) t) ''`json''"
        by (simp add: numeral_3_eq_3)
      with n1 show False by simp
    qed
    have a2: "j \<noteq> i + 2"
    proof
      assume e: "j = i + 2"
      have "startswith (drop j t) (''`'' @ ''``json'')"
        using j by simp
      from startswith_append(2) [OF this] e have "startswith (drop (i + 3) t) ''``json''"
        by (simp add: numeral_3_eq_3)
      with n2 show False by simp
    qed
    have f: "find_str (take j t) ''```'' = (if i + 3 \<le> j then Some i else None)"
      using find_str_in_take [OF i, where j = j] by simp
    show ?thesis
    proof (cases "j = i")
      case True
      with Some f show ?thesis by simp
    next
      case False
      with ge a1 a2 have "i + 3 \<le> j" by arith
      with Some f show ?thesis by (simp add: min_def)
    qed
  qed
  show ?thesis
    unfolding unfence_def using st sp qs inner by simp
qed

definition fenced_plain :: string where
  \<open>fenced_plain = ''```\<newline>'' @ one_concept @ ''\<newline>```''\<close>

lemma strip_fenced_plain: "strip fenced_plain = fenced_plain"
  by (simp add: fenced_plain_def one_concept_def strip_def py_isspace_def)

lemma unfence_fenced_plain: "unfence fenced_plain = Inr fenced_plain"
  by (simp add: fenced_plain_def unfence_def startswith_def)

lemma loads_fenced_plain: "json_loads fenced_plain = None"
  unfolding fenced_plain_def one_concept_def by code_simp

text \<open>
  Claim C6, as the specification states it, fails for a fence that is not opened by
  \<^verbatim>\<open>```json\<close>. Here the reply is a JSON object inside a plain \<^verbatim>\<open>```\<close> fence: the
  object parses on its own, the fence stays in the text given to the parser, and the
  result is the empty one.
\<close>

theorem fence_stripped_counterexample:
  "json_loads one_concept =
     Some (JObj [(''entities'', JArr [JObj [(''type'', JStr ''Concept''), (''name'', JStr ''NUMA'')]])]) \<and>
   extract_entities_from_chunk json_loads
     (\<lambda>prompt. Inr (Some (''```\<newline>'' @ one_concept @ ''\<newline>```''))) ''NUMA nodes'' =
     \<lparr>entities = JArr [], relationships = JArr [], chunk_summary = JStr []\<rparr>"
  using loads_one_concept strip_fenced_plain unfence_fenced_plain loads_fenced_plain
  by (simp add: extract_entities_from_chunk_def try_extract_def empty_result_def fenced_plain_def)

text \<open>
  Claim C6, amended. A reply that, stripped of surrounding white space, opens with
  \<^verbatim>\<open>```json\<close> is cut at the first \<^verbatim>\<open>```\<close> after that opening, and the text in between is
  what the parser gets: when it is a JSON object, the result holds the fields of that
  object. (Left out is the one case where the code cuts elsewhere: that first \<^verbatim>\<open>```\<close>
  followed at once by \<^verbatim>\<open>`json\<close> or \<^verbatim>\<open>``json\<close>, a run of backquotes that goes on into
  another \<^verbatim>\<open>```json\<close>.) A reply that does not open with \<^verbatim>\<open>```json\<close> is given to the
  parser whole, whatever fence it has, and gives the empty result whenever that whole text
  does not parse.
\<close>

theorem json_fence_is_stripped:
  assumes "create (extraction_prompt text_chunk) = Inr (Some content)"
  shows "(strip content = ''```json'' @ t \<and> find_str t ''```'' = Some i \<and>
          \<not> startswith (drop (i + 3) t) ''`json'' \<and> \<not> startswith (drop (i + 3) t) ''``json'' \<and>
          parse (take i t) = Some (JObj d) \<longrightarrow>
            extract_entities_from_chunk parse create text_chunk =
              \<lparr>entities = dict_get d ''entities'' (JArr []),
               relationships = dict_get d ''relationships'' (JArr []),
               chunk_summary = dict_get d ''chunk_summary'' (JStr [])\<rparr>) \<and>
         (\<not> startswith (strip content) ''```json'' \<and> parse (strip content) = None \<longrightarrow>
            extract_entities_from_chunk parse create text_chunk =
              \<lparr>entities = JArr [], relationships = JArr [], chunk_summary = JStr []\<rparr>)"
proof -
  have "extract_entities_from_chunk parse create text_chunk =
              \<lparr>entities = dict_get d ''entities'' (JArr []),
               relationships = dict_get d ''relationships'' (JArr []),
               chunk_summary = dict_get d ''chunk_summary'' (JStr [])\<rparr>"
    if "strip content = ''```json'' @ t" "find_str t ''```'' = Some i"
       "\<not> startswith (drop (i + 3) t) ''`json''" "\<not> startswith (drop (i + 3) t) ''``json''"
       "parse (take i t) = Some (JObj d)"
    using assms that(1,5) unfence_opened [OF that(2,3,4)]
    by (simp add: extract_entities_from_chunk_def try_extract_def)
  moreover have "extract_entities_from_chunk parse create text_chunk =
              \<lparr>entities = JArr [], relationships = JArr [], chunk_summary = JStr []\<rparr>"
    if "\<not> startswith (strip content) ''```json''" "parse (strip content) = None"
    using assms that
    by (simp add: extract_entities_from_chunk_def try_extract_def unfence_def empty_result_def)
  ultimately show ?thesis by blast
qed

definition tick_in_string :: string where
  \<open>tick_in_string = ''{"entities": [{"type": "Parameter", "name": "`numa.nodeAffinity`"}]}''\<close>

lemma find_fence_close:
  "find_str (''\<newline>'' @ tick_in_string @ ''\<newline>```'') ''```'' = Some (length (''\<newline>'' @ tick_in_string @ ''\<newline>''))"
  unfolding tick_in_string_def by code_simp

lemma loads_tick_in_string:
  "json_loads (''\<newline>'' @ tick_in_string @ ''\<newline>'') =
     Some (JObj [(''entities'', JArr [JObj [(''type'', JStr ''Parameter''), (''name'', JStr ''`numa.nodeAffinity`'')]])])"
  unfolding tick_in_string_def by code_simp

lemma strip_tick_fenced:
  "strip (''```json\<newline>'' @ tick_in_string @ ''\<newline>```\<newline>'') =
     ''```json'' @ (''\<newline>'' @ tick_in_string @ ''\<newline>```'')"
  unfolding tick_in_string_def by code_simp

theorem json_fence_is_stripped_witness:
  "extract_entities_from_chunk json_loads
     (\<lambda>prompt. Inr (Some (''```json\<newline>'' @ tick_in_string @ ''\<newline>```\<newline>''))) ''NUMA nodes'' =
     \<lparr>entities = JArr [JObj [(''type'', JStr ''Parameter''), (''name'', JStr ''`numa.nodeAffinity`'')]],
      relationships = JArr [], chunk_summary = JStr []\<rparr> \<and>
   \<not> startswith (strip fenced_plain) ''```json'' \<and> json_loads (strip fenced_plain) = None \<and>
   extract_entities_from_chunk json_loads (\<lambda>prompt. Inr (Some fenced_plain)) ''NUMA nodes'' =
     \<lparr>entities = JArr [], relationships = JArr [], chunk_summary = JStr []\<rparr>"
proof -
  let ?t = "''\<newline>'' @ tick_in_string @ ''\<newline>```''"
  let ?i = "length (''\<newline>'' @ tick_in_string @ ''\<newline>'')"
  have a: "\<not> startswith (drop (?i + 3) ?t) ''`json''" "\<not> startswith (drop (?i + 3) ?t) ''``json''"
    by (simp_all add: startswith_def)
  have b: "take ?i ?t = ''\<newline>'' @ tick_in_string @ ''\<newline>''"
    by simp
  have c: "\<not> startswith (strip fenced_plain) ''```json''"
    by (simp add: strip_fenced_plain) (simp add: fenced_plain_def startswith_def)
  have d: "json_loads (strip fenced_plain) = None"
    by (simp add: strip_fenced_plain loads_fenced_plain)
  show ?thesis
    using json_fence_is_stripped
      [where create = "\<lambda>prompt. Inr (Some (''```json\<newline>'' @ tick_in_string @ ''\<newline>```\<newline>''))"
         and text_chunk = "''NUMA nodes''"
         and content = "''```json\<newline>'' @ tick_in_string @ ''\<newline>```\<newline>''"
         and parse = json_loads and t = ?t and i = ?i
         and d = "[(''entities'', JArr [JObj [(''type'', JStr ''Parameter''), (''name'', JStr ''`numa.nodeAffinity`'')]])]"]
      json_fence_is_stripped
      [where create = "\<lambda>prompt. Inr (Some fenced_plain)" and text_chunk = "''NUMA nodes''"
         and content = fenced_plain and parse = json_loads]
      a b c d strip_tick_fenced find_fence_close loads_tick_in_string
    by (simp add: dict_get_def)
qed

subsection \<open>A second pass over a chunk\<close>

































end
